theory Spec2Isabelle
  imports Complex_Main
begin

section \<open>The PNG sequencer's playback engine\<close>

text \<open>
  The component \<open>PngSequencer\<close> keeps three pieces of React state (\<open>currentFrame\<close>,
  \<open>isPlaying\<close>, \<open>playbackState\<close>) and three refs (\<open>intervalRef\<close>, \<open>stopAtRef\<close>,
  \<open>pendingStopRef\<close>). The model passes them as a record; every callback of the component
  is a function from the record to the updated record, with the props it closes over as
  a first argument.

  Conventions of the model:
  \<^item> a command of the imperative handle and an effect take effect where they run: React
    has rendered their state updates before the next callback;
  \<^item> the interval callback hands an updater function to \<open>setCurrentFrame\<close> and then
    tests \<open>pendingStopRef\<close>. React queues the updater and runs it when it renders the
    component, after the callback has returned. So the test reads what the updater of the
    previous interval wrote, and the updater of this interval runs after the commit of a
    pending stop, with the refs as the commit left them;
  \<^item> frame indices are integers (\<open>int\<close>); the numbers of the timing arithmetic, where
    \<open>NaN\<close> and the infinities matter, are a type of their own.
\<close>

subsection \<open>JavaScript numbers of the timing arithmetic\<close>

text \<open>
  A JavaScript number is \<open>NaN\<close>, an infinity or a finite double. A finite value is a
  real here. An operation whose exact result lies beyond the range of the doubles returns
  an infinity, as rounding to nearest does from \<open>2^1024 - 2^970\<close> on; a result within the
  range is kept exact: rounding to the nearest double and the sign of zero are not
  modelled (zero is read as \<open>+0\<close>).
\<close>

datatype jsnum = NaN | NegInf | Fin real | PosInf

text \<open>\<open>a > b\<close>: false as soon as one side is \<open>NaN\<close>.\<close>

fun js_gt :: "jsnum \<Rightarrow> jsnum \<Rightarrow> bool" where
  "js_gt NaN b = False"
| "js_gt a NaN = False"
| "js_gt NegInf b = False"
| "js_gt PosInf PosInf = False"
| "js_gt PosInf b = True"
| "js_gt (Fin x) NegInf = True"
| "js_gt (Fin x) (Fin y) = (y < x)"
| "js_gt (Fin x) PosInf = False"

definition overflow_bound :: real where
  "overflow_bound = 2 ^ 1024 - 2 ^ 970"

text \<open>The number an operation returns whose exact result is \<open>x\<close>.\<close>

definition js_number :: "real \<Rightarrow> jsnum" where
  "js_number x =
     (if overflow_bound \<le> x then PosInf
      else if x \<le> - overflow_bound then NegInf
      else Fin x)"

text \<open>\<open>a / b\<close>.\<close>

fun js_div :: "jsnum \<Rightarrow> jsnum \<Rightarrow> jsnum" where
  "js_div NaN b = NaN"
| "js_div a NaN = NaN"
| "js_div (Fin x) (Fin y) =
     (if y \<noteq> 0 then js_number (x / y)
      else if x = 0 then NaN else if 0 < x then PosInf else NegInf)"
| "js_div (Fin x) b = Fin 0"
| "js_div PosInf (Fin y) = (if 0 \<le> y then PosInf else NegInf)"
| "js_div NegInf (Fin y) = (if 0 \<le> y then NegInf else PosInf)"
| "js_div a b = NaN"

text \<open>Truthiness of a number (\<open>duration && ...\<close>): every number but zero and \<open>NaN\<close>.\<close>

fun js_truthy :: "jsnum \<Rightarrow> bool" where
  "js_truthy NaN = False"
| "js_truthy (Fin x) = (x \<noteq> 0)"
| "js_truthy a = True"

fun Number_isFinite :: "jsnum \<Rightarrow> bool" where
  "Number_isFinite (Fin x) = True"
| "Number_isFinite a = False"

subsection \<open>Props and state\<close>

datatype PlaybackState = Idle | Playing | Paused | Stopped

text \<open>
  The props the engine reads. \<open>frames_length\<close> is \<open>frames.length\<close>, the only thing the
  engine reads of the frame list; \<open>fps\<close> is the prop after its default (\<open>DEFAULT_FPS\<close>)
  has been filled in; \<open>duration\<close> is \<open>None\<close> when the prop is left undefined.
\<close>

record props =
  frames_length :: nat
  fps :: jsnum
  duration :: "jsnum option"
  loop :: bool
  autoPlay :: bool
  initialFrame :: int

record state =
  currentFrame :: int
  isPlaying :: bool
  playbackState :: PlaybackState
  stopAtRef :: "int option"
  pendingStopRef :: "PlaybackState option"

subsection \<open>Helpers\<close>

definition clamp :: "int \<Rightarrow> int \<Rightarrow> int \<Rightarrow> int" where
  "clamp v lo hi = min (max v lo) hi"

definition DEFAULT_FPS :: jsnum where
  "DEFAULT_FPS = Fin 24"

definition safeLastIndex :: "props \<Rightarrow> int" where
  "safeLastIndex p = max (int (frames_length p) - 1) 0"

definition clampFrame :: "props \<Rightarrow> int \<Rightarrow> int" where
  "clampFrame p frameIndex =
     (if frames_length p = 0 then 0 else clamp frameIndex 0 (safeLastIndex p))"

definition frameInterval :: "props \<Rightarrow> jsnum" where
  "frameInterval p =
     (if frames_length p = 0 then PosInf
      else case duration p of
        Some d \<Rightarrow>
          if js_truthy d \<and> js_gt d (Fin 0) then js_div d (Fin (real (frames_length p)))
          else js_div (Fin 1000) (if js_gt (fps p) (Fin 0) then fps p else DEFAULT_FPS)
      | None \<Rightarrow>
          js_div (Fin 1000) (if js_gt (fps p) (Fin 0) then fps p else DEFAULT_FPS))"

definition transitionTo :: "PlaybackState \<Rightarrow> state \<Rightarrow> state" where
  "transitionTo st s =
     s\<lparr>playbackState := (if playbackState s = st then playbackState s else st)\<rparr>"

subsection \<open>The commands of the imperative handle\<close>

definition pauseInternal :: "state \<Rightarrow> state" where
  "pauseInternal s = transitionTo Paused (s\<lparr>isPlaying := False\<rparr>)"

definition stopInternal :: "state \<Rightarrow> state" where
  "stopInternal s =
     transitionTo Stopped (s\<lparr>isPlaying := False, currentFrame := 0, stopAtRef := None\<rparr>)"

text \<open>\<open>play(options)\<close>; the argument is \<open>options?.stopAtFrame\<close> when it is a number.\<close>

definition play :: "props \<Rightarrow> int option \<Rightarrow> state \<Rightarrow> state" where
  "play p stopAtFrame s =
     (if frames_length p = 0 then s
      else transitionTo Playing
        (s\<lparr>stopAtRef := (case stopAtFrame of
                            Some t \<Rightarrow> Some (clampFrame p t)
                          | None \<Rightarrow> None),
           isPlaying := True\<rparr>))"

definition restart :: "props \<Rightarrow> state \<Rightarrow> state" where
  "restart p s = play p None (s\<lparr>currentFrame := 0\<rparr>)"

definition pause :: "state \<Rightarrow> state" where
  "pause s = pauseInternal s"

definition stop :: "state \<Rightarrow> state" where
  "stop s = stopInternal s"

definition goToFrame :: "props \<Rightarrow> int \<Rightarrow> bool \<Rightarrow> state \<Rightarrow> state" where
  "goToFrame p frameIndex autoPause s =
     (let s1 = s\<lparr>currentFrame := clampFrame p frameIndex\<rparr>
      in if autoPause then pauseInternal s1 else s1)"

subsection \<open>The timer\<close>

text \<open>
  The updater of the interval callback, when no stop target has been reached: wrap,
  clamp at the end, or advance by one.
\<close>

definition advance_free :: "props \<Rightarrow> state \<Rightarrow> state" where
  "advance_free p s =
     (let lastIndex = int (frames_length p) - 1; nxt = currentFrame s + 1
      in if lastIndex < nxt then
           (if loop p then s\<lparr>currentFrame := 0\<rparr>
            else s\<lparr>currentFrame := lastIndex, pendingStopRef := Some Stopped\<rparr>)
         else s\<lparr>currentFrame := nxt, pendingStopRef := None\<rparr>)"

text \<open>The updater \<open>(prev) => ...\<close>: it returns the next index and writes \<open>pendingStopRef\<close>.\<close>

definition advance :: "props \<Rightarrow> state \<Rightarrow> state" where
  "advance p s =
     (if frames_length p = 0 then s
      else let lastIndex = int (frames_length p) - 1; nxt = currentFrame s + 1
        in case stopAtRef s of
             Some stopAtTarget \<Rightarrow>
               if stopAtTarget \<le> nxt
               then s\<lparr>currentFrame := clamp stopAtTarget 0 lastIndex,
                      pendingStopRef := Some Paused\<rparr>
               else advance_free p s
           | None \<Rightarrow> advance_free p s)"

text \<open>
  The test \<open>if (pendingStopRef.current)\<close> at the end of the interval callback, which
  commits a pending stop.
\<close>

definition commit_pending :: "state \<Rightarrow> state" where
  "commit_pending s =
     (case pendingStopRef s of
        Some nextState \<Rightarrow>
          transitionTo nextState
            (s\<lparr>pendingStopRef := None, stopAtRef := None, isPlaying := False\<rparr>)
      | None \<Rightarrow> s)"

text \<open>
  One elapsed interval: the callback queues the updater and commits what is pending; the
  render that follows runs the queued updater.
\<close>

definition tick :: "props \<Rightarrow> state \<Rightarrow> state" where
  "tick p s = advance p (commit_pending s)"

text \<open>
  The timer effect arms the interval exactly when \<open>isPlaying\<close> holds and the interval is
  finite, and clears it otherwise; an elapsed interval runs the callback only while armed.
\<close>

definition timer_armed :: "props \<Rightarrow> state \<Rightarrow> bool" where
  "timer_armed p s = (isPlaying s \<and> Number_isFinite (frameInterval p))"

definition timer_tick :: "props \<Rightarrow> state \<Rightarrow> state" where
  "timer_tick p s = (if timer_armed p s then tick p s else s)"

subsection \<open>Mounting and changes of the frame list\<close>

text \<open>The effect that re-clamps the index, or resets playback when the frames are gone.\<close>

definition frames_effect :: "props \<Rightarrow> state \<Rightarrow> state" where
  "frames_effect p s =
     (if frames_length p = 0 then stopInternal s
      else s\<lparr>currentFrame := clampFrame p (currentFrame s)\<rparr>)"

definition autoPlay_effect :: "props \<Rightarrow> state \<Rightarrow> state" where
  "autoPlay_effect p s =
     (if \<not> autoPlay p \<or> frames_length p = 0 then s else play p None s)"

text \<open>The first render (\<open>useState\<close> initialisers) followed by the effects, in their order.\<close>

definition initial :: "props \<Rightarrow> state" where
  "initial p =
     \<lparr>currentFrame = clampFrame p (initialFrame p), isPlaying = False,
      playbackState = Idle, stopAtRef = None, pendingStopRef = None\<rparr>"

definition mount :: "props \<Rightarrow> state" where
  "mount p = autoPlay_effect p (frames_effect p (initial p))"

text \<open>
  A new frame list of length \<open>n\<close>. Both effects depend on \<open>frames.length\<close> (and on
  callbacks rebuilt when it changes), so they run again exactly when the length changes.
\<close>

definition set_frames :: "nat \<Rightarrow> props \<times> state \<Rightarrow> props \<times> state" where
  "set_frames n c =
     (let p = fst c; s = snd c
      in if n = frames_length p then c
         else let p' = p\<lparr>frames_length := n\<rparr>
           in (p', autoPlay_effect p' (frames_effect p' s)))"

subsection \<open>Runs of the engine\<close>

datatype event =
    Play "int option"
  | Pause
  | Stop
  | Restart
  | GoToFrame int bool
  | Tick
  | SetFrames nat

fun step :: "event \<Rightarrow> props \<times> state \<Rightarrow> props \<times> state" where
  "step (Play t) (p, s) = (p, play p t s)"
| "step Pause (p, s) = (p, pause s)"
| "step Stop (p, s) = (p, stop s)"
| "step Restart (p, s) = (p, restart p s)"
| "step (GoToFrame i a) (p, s) = (p, goToFrame p i a s)"
| "step Tick (p, s) = (p, timer_tick p s)"
| "step (SetFrames n) (p, s) = set_frames n (p, s)"

fun run :: "event list \<Rightarrow> props \<times> state \<Rightarrow> props \<times> state" where
  "run [] c = c"
| "run (e # es) c = run es (step e c)"

text \<open>The range of the frame index for the frame list at hand.\<close>

definition frame_in_range :: "props \<times> state \<Rightarrow> bool" where
  "frame_in_range c =
     (0 \<le> currentFrame (snd c) \<and>
      currentFrame (snd c) \<le> max (int (frames_length (fst c)) - 1) 0)"

subsection \<open>Notifications\<close>

text \<open>
  The state-change effect calls \<open>onStateChange\<close> with the new value whenever
  \<open>playbackState\<close> has changed. \<open>reports st p k s\<close> counts the calls with \<open>st\<close> that
  the first \<open>k\<close> elapsed intervals cause, starting in \<open>s\<close>.
\<close>

fun reports :: "PlaybackState \<Rightarrow> props \<Rightarrow> nat \<Rightarrow> state \<Rightarrow> nat" where
  "reports st p 0 s = 0"
| "reports st p (Suc k) s =
     (if playbackState (timer_tick p s) = st \<and> playbackState s \<noteq> st then 1 else 0)
       + reports st p k (timer_tick p s)"

subsection \<open>The restart operation as the specification words it\<close>

text \<open>
  "Reset \<open>currentFrameIndex\<close> to 0, then perform \<open>play()\<close> with no stop target", where
  \<open>play\<close> without a target is a no-op on an empty frame list and otherwise clears any
  previous stop target, sets the state to \<open>playing\<close> and arms the timer.
\<close>

definition restart_spec :: "props \<Rightarrow> state \<Rightarrow> state" where
  "restart_spec p s =
     (let s1 = s\<lparr>currentFrame := 0\<rparr>
      in if frames_length p = 0 then s1
         else s1\<lparr>stopAtRef := None, isPlaying := True, playbackState := Playing\<rparr>)"

subsection \<open>Example configurations\<close>

text \<open>
  Five frames, looping, started by hand; ten frames at 10 fps, not looping, started on
  mount; and an empty frame list.
\<close>

definition five_frames :: props where
  "five_frames =
     \<lparr>frames_length = 5, fps = Fin 24, duration = None, loop = True, autoPlay = False,
      initialFrame = 0\<rparr>"

definition ten_frames :: props where
  "ten_frames =
     \<lparr>frames_length = 10, fps = Fin 10, duration = None, loop = False, autoPlay = True,
      initialFrame = 0\<rparr>"

definition no_frames :: props where
  "no_frames =
     \<lparr>frames_length = 0, fps = Fin 24, duration = None, loop = True, autoPlay = True,
      initialFrame = 0\<rparr>"

subsection \<open>Example runs\<close>

text \<open>
  Five frames, mounted without autoplay: \<open>play({stopAtFrame: T})\<close> followed by \<open>max T 1\<close>
  elapsed intervals, for \<open>T\<close> = 3, 4 and 1.
\<close>

definition played_to_3 :: "props \<times> state" where
  "played_to_3 = run [Play (Some 3), Tick, Tick, Tick] (five_frames, mount five_frames)"

definition played_to_4 :: "props \<times> state" where
  "played_to_4 = run [Play (Some 4), Tick, Tick, Tick, Tick] (five_frames, mount five_frames)"

definition played_to_1 :: "props \<times> state" where
  "played_to_1 = run [Play (Some 1), Tick] (five_frames, mount five_frames)"

text \<open>After \<open>played_to_3\<close>: \<open>play()\<close> without a target, then \<open>goToFrame(0)\<close>.\<close>

definition replayed_from_0 :: "props \<times> state" where
  "replayed_from_0 = run [Play None, GoToFrame 0 False] played_to_3"

text \<open>
  Ten frames, not looping, playing since the mount: \<open>play({stopAtFrame: 9})\<close>, nine elapsed
  intervals, \<open>pause()\<close>, then \<open>play()\<close> without a target.
\<close>

definition played_to_9 :: "props \<times> state" where
  "played_to_9 =
     run [Play (Some 9), Tick, Tick, Tick, Tick, Tick, Tick, Tick, Tick, Tick, Pause, Play None]
       (ten_frames, mount ten_frames)"

section \<open>Timing arithmetic\<close>

lemma overflow_bound_large: "1000000 < overflow_bound"
  by (simp add: overflow_bound_def)

lemma js_number_small: "\<bar>x\<bar> \<le> 1000000 \<Longrightarrow> js_number x = Fin x"
  using overflow_bound_large by (auto simp: js_number_def)

lemmas example_defs = five_frames_def ten_frames_def no_frames_def frameInterval_def
  DEFAULT_FPS_def initial_def clampFrame_def clamp_def safeLastIndex_def js_number_small

lemma finite_interval_nonempty:
  "Number_isFinite (frameInterval p) \<Longrightarrow> frames_length p \<noteq> 0"
  by (cases "frames_length p = 0") (simp_all add: frameInterval_def)

lemma timer_armed_five_frames: "timer_armed five_frames s = isPlaying s"
  by (simp add: timer_armed_def example_defs)

lemma timer_armed_ten_frames: "timer_armed ten_frames s = isPlaying s"
  by (simp add: timer_armed_def example_defs)

section \<open>The frame index stays in range\<close>

lemma clampFrame_range:
  "0 \<le> clampFrame p i \<and> clampFrame p i \<le> max (int (frames_length p) - 1) 0"
  by (auto simp: clampFrame_def clamp_def safeLastIndex_def)

lemma advance_free_range:
  "frames_length p \<noteq> 0 \<Longrightarrow> frame_in_range (p, s) \<Longrightarrow> frame_in_range (p, advance_free p s)"
  by (auto simp: frame_in_range_def advance_free_def Let_def)

lemma advance_range:
  "frame_in_range (p, s) \<Longrightarrow> frame_in_range (p, advance p s)"
  using advance_free_range [of p s]
  by (auto simp: advance_def Let_def frame_in_range_def clamp_def split: option.splits)

lemma commit_pending_currentFrame: "currentFrame (commit_pending s) = currentFrame s"
  by (simp add: commit_pending_def transitionTo_def split: option.splits)

lemma tick_range:
  "frame_in_range (p, s) \<Longrightarrow> frame_in_range (p, tick p s)"
  using advance_range [of p "commit_pending s"]
  by (simp add: frame_in_range_def tick_def commit_pending_currentFrame)

lemma timer_tick_range:
  "frame_in_range (p, s) \<Longrightarrow> frame_in_range (p, timer_tick p s)"
  by (simp add: timer_tick_def tick_range)

lemma play_currentFrame: "currentFrame (play p t s) = currentFrame s"
  by (simp add: play_def transitionTo_def)

lemma play_fields:
  assumes "frames_length p \<noteq> 0"
  shows "play p t s =
    s\<lparr>isPlaying := True, playbackState := Playing,
      stopAtRef := (case t of Some i \<Rightarrow> Some (clampFrame p i) | None \<Rightarrow> None)\<rparr>"
  using assms by (simp add: play_def transitionTo_def)

lemma frames_effect_range: "frame_in_range (p, frames_effect p s)"
  using clampFrame_range [of p "currentFrame s"]
  by (auto simp: frame_in_range_def frames_effect_def stopInternal_def transitionTo_def)

lemma autoPlay_effect_currentFrame: "currentFrame (autoPlay_effect p s) = currentFrame s"
  by (simp add: autoPlay_effect_def play_currentFrame)

lemma set_frames_range:
  "frame_in_range c \<Longrightarrow> frame_in_range (set_frames n c)"
  using frames_effect_range [of "(fst c)\<lparr>frames_length := n\<rparr>" "snd c"]
  by (simp add: set_frames_def Let_def frame_in_range_def autoPlay_effect_currentFrame)

lemma step_range: "frame_in_range c \<Longrightarrow> frame_in_range (step e c)"
proof (cases c)
  case (Pair p s)
  assume r: "frame_in_range c"
  show ?thesis
  proof (cases e)
    case (Play t)
    with Pair r show ?thesis by (simp add: frame_in_range_def play_currentFrame)
  next
    case Pause
    with Pair r show ?thesis by (simp add: frame_in_range_def pause_def pauseInternal_def transitionTo_def)
  next
    case Stop
    with Pair r show ?thesis by (simp add: frame_in_range_def stop_def stopInternal_def transitionTo_def)
  next
    case Restart
    with Pair r show ?thesis by (simp add: frame_in_range_def restart_def play_currentFrame)
  next
    case (GoToFrame i a)
    with Pair r clampFrame_range [of p i] show ?thesis
      by (simp add: frame_in_range_def goToFrame_def Let_def pauseInternal_def transitionTo_def)
  next
    case Tick
    with Pair r timer_tick_range [of p s] show ?thesis by simp
  next
    case (SetFrames n)
    with Pair r set_frames_range [of c n] show ?thesis by simp
  qed
qed

lemma run_range: "frame_in_range c \<Longrightarrow> frame_in_range (run es c)"
  by (induction es arbitrary: c) (simp_all add: step_range)

lemma mount_range: "frame_in_range (p, mount p)"
  using frames_effect_range [of p "initial p"]
  by (simp add: mount_def frame_in_range_def autoPlay_effect_currentFrame)

text \<open>
  C1. For every frame list, every \<open>initialFrame\<close> and every sequence of commands
  (\<open>play\<close>, \<open>pause\<close>, \<open>stop\<close>, \<open>restart\<close>, \<open>goToFrame\<close> with any integer), elapsed
  timer intervals and changes of the frame-list length, the frame index of the resulting
  state lies between 0 and \<open>max (N - 1) 0\<close>, where \<open>N\<close> is the length of the frame list
  at that moment: a change of the length re-clamps the index.
\<close>

theorem frame_index_in_range:
  "0 \<le> currentFrame (snd (run es (p, mount p))) \<and>
   currentFrame (snd (run es (p, mount p)))
     \<le> max (int (frames_length (fst (run es (p, mount p)))) - 1) 0"
  using run_range [OF mount_range, of es p] by (simp add: frame_in_range_def)

text \<open>
  The index 4 of five frames becomes at most 1 when the list shrinks to two frames.
\<close>

theorem frame_index_in_range_witness:
  "currentFrame (snd (run [GoToFrame 7 False, SetFrames 2] (five_frames, mount five_frames))) \<le> 1"
  using frame_index_in_range [of "[GoToFrame 7 False, SetFrames 2]" five_frames]
  by (simp add: five_frames_def set_frames_def Let_def)

section \<open>Evaluating runs\<close>

lemmas command_defs = play_def restart_def pause_def stop_def goToFrame_def pauseInternal_def
  stopInternal_def transitionTo_def clampFrame_def clamp_def safeLastIndex_def

lemmas timer_defs = timer_tick_def tick_def commit_pending_def advance_def advance_free_def
  Let_def

lemma five_frames_props:
  "frames_length five_frames = 5" "loop five_frames" "\<not> autoPlay five_frames"
  "initialFrame five_frames = 0"
  by (simp_all add: five_frames_def)

lemma ten_frames_props:
  "frames_length ten_frames = 10" "\<not> loop ten_frames" "autoPlay ten_frames"
  "initialFrame ten_frames = 0"
  by (simp_all add: ten_frames_def)

lemma mount_five_frames:
  "mount five_frames =
     \<lparr>currentFrame = 0, isPlaying = False, playbackState = Idle, stopAtRef = None,
      pendingStopRef = None\<rparr>"
  by (simp add: mount_def autoPlay_effect_def frames_effect_def initial_def five_frames_props
      command_defs)

lemma mount_ten_frames:
  "mount ten_frames =
     \<lparr>currentFrame = 0, isPlaying = True, playbackState = Playing, stopAtRef = None,
      pendingStopRef = None\<rparr>"
  by (simp add: mount_def autoPlay_effect_def frames_effect_def initial_def ten_frames_props
      command_defs)

lemma played_to_3_state:
  "played_to_3 =
     (five_frames,
      \<lparr>currentFrame = 3, isPlaying = True, playbackState = Playing, stopAtRef = Some 3,
       pendingStopRef = Some Paused\<rparr>)"
  by (simp add: played_to_3_def mount_five_frames five_frames_props timer_armed_five_frames
      command_defs timer_defs)

lemma played_to_4_state:
  "played_to_4 =
     (five_frames,
      \<lparr>currentFrame = 4, isPlaying = True, playbackState = Playing, stopAtRef = Some 4,
       pendingStopRef = Some Paused\<rparr>)"
  by (simp add: played_to_4_def mount_five_frames five_frames_props timer_armed_five_frames
      command_defs timer_defs)

lemma played_to_1_state:
  "played_to_1 =
     (five_frames,
      \<lparr>currentFrame = 1, isPlaying = True, playbackState = Playing, stopAtRef = Some 1,
       pendingStopRef = Some Paused\<rparr>)"
  by (simp add: played_to_1_def mount_five_frames five_frames_props timer_armed_five_frames
      command_defs timer_defs)

lemma replayed_from_0_state:
  "replayed_from_0 =
     (five_frames,
      \<lparr>currentFrame = 0, isPlaying = True, playbackState = Playing, stopAtRef = None,
       pendingStopRef = Some Paused\<rparr>)"
  by (simp add: replayed_from_0_def played_to_3_state five_frames_props command_defs)

lemma played_to_9_state:
  "played_to_9 =
     (ten_frames,
      \<lparr>currentFrame = 9, isPlaying = True, playbackState = Playing, stopAtRef = None,
       pendingStopRef = Some Paused\<rparr>)"
  by (simp add: played_to_9_def mount_ten_frames ten_frames_props timer_armed_ten_frames
      command_defs timer_defs)

lemma timer_tick_idle: "\<not> isPlaying s \<Longrightarrow> timer_tick p s = s"
  by (simp add: timer_tick_def timer_armed_def)

lemma timer_tick_halted:
  "\<not> isPlaying (timer_tick p s) \<Longrightarrow> (timer_tick p ^^ Suc j) s = timer_tick p s"
  by (induction j) (simp_all add: timer_tick_idle)

lemma reports_never:
  "(\<And>i. playbackState ((timer_tick p ^^ i) s) \<noteq> st) \<Longrightarrow> reports st p j s = 0"
proof (induction j arbitrary: s)
  case 0
  show ?case by simp
next
  case (Suc j)
  have a: "playbackState (timer_tick p s) \<noteq> st" using Suc.prems [of 1] by simp
  have "\<And>i. playbackState ((timer_tick p ^^ i) (timer_tick p s)) \<noteq> st"
    using Suc.prems [of "Suc i" for i] by (simp add: funpow_swap1)
  then have "reports st p j (timer_tick p s) = 0" by (rule Suc.IH)
  then show ?case using a by simp
qed

section \<open>Playing to a stop target\<close>

text \<open>
  C2. Five frames, looping, \<open>play({stopAtFrame: 3})\<close> at index 0. After three elapsed
  intervals the index is 3, but the engine still plays: the pause is only pending. The
  fourth interval commits the pause, and its updater, which finds the target cleared,
  moves on to index 4: the engine halts paused one frame past the target. With the target
  4, the last index, the halt is at index 0, after a wrap.
\<close>

theorem play_to_target_overshoots:
  "currentFrame (snd played_to_3) = 3 \<and>
   playbackState (snd played_to_3) = Playing \<and>
   timer_armed five_frames (snd played_to_3) \<and>
   currentFrame (snd (step Tick played_to_3)) = 4 \<and>
   playbackState (snd (step Tick played_to_3)) = Paused \<and>
   \<not> timer_armed five_frames (snd (step Tick played_to_3)) \<and>
   currentFrame (snd played_to_4) = 4 \<and>
   playbackState (snd played_to_4) = Playing \<and>
   currentFrame (snd (step Tick played_to_4)) = 0 \<and>
   playbackState (snd (step Tick played_to_4)) = Paused"
  by (simp add: played_to_3_state played_to_4_state five_frames_props timer_armed_five_frames
      transitionTo_def timer_defs)

section \<open>Running to the end without looping\<close>

text \<open>
  C3. Ten frames, not looping. After \<open>play({stopAtFrame: 9})\<close>, nine elapsed intervals,
  \<open>pause()\<close> and \<open>play()\<close>, the engine plays at the last index 9 with no stop target, and
  the pause of the first run is still pending. The next elapsed interval, which runs past the last
  index, commits that pause: the index stays 9, the state is \<open>paused\<close> and the timer
  disarmed from then on, and \<open>stopped\<close> is never reported.
\<close>

theorem no_loop_run_ends_paused:
  "fst played_to_9 = ten_frames \<and> \<not> loop ten_frames \<and>
   stopAtRef (snd played_to_9) = None \<and>
   currentFrame (snd played_to_9) = 9 \<and>
   playbackState (snd played_to_9) = Playing \<and>
   timer_armed ten_frames (snd played_to_9) \<and>
   (\<forall>j. currentFrame ((timer_tick ten_frames ^^ Suc j) (snd played_to_9)) = 9 \<and>
        playbackState ((timer_tick ten_frames ^^ Suc j) (snd played_to_9)) = Paused \<and>
        \<not> timer_armed ten_frames ((timer_tick ten_frames ^^ Suc j) (snd played_to_9))) \<and>
   (\<forall>j. reports Stopped ten_frames j (snd played_to_9) = 0)"
proof -
  let ?s = "snd played_to_9"
  have t: "timer_tick ten_frames ?s =
      \<lparr>currentFrame = 9, isPlaying = False, playbackState = Paused, stopAtRef = None,
       pendingStopRef = Some Stopped\<rparr>"
    by (simp add: played_to_9_state ten_frames_props timer_armed_ten_frames transitionTo_def
        timer_defs)
  have idle: "\<not> isPlaying (timer_tick ten_frames ?s)" by (simp add: t)
  have after: "(timer_tick ten_frames ^^ Suc j) ?s = timer_tick ten_frames ?s" for j
    using idle by (rule timer_tick_halted)
  have never: "playbackState ((timer_tick ten_frames ^^ i) ?s) \<noteq> Stopped" for i
  proof (cases i)
    case 0
    then show ?thesis by (simp add: played_to_9_state)
  next
    case (Suc j)
    show ?thesis unfolding Suc after by (simp add: t)
  qed
  have A: "\<forall>j. currentFrame ((timer_tick ten_frames ^^ Suc j) ?s) = 9 \<and>
        playbackState ((timer_tick ten_frames ^^ Suc j) ?s) = Paused \<and>
        \<not> timer_armed ten_frames ((timer_tick ten_frames ^^ Suc j) ?s)"
    unfolding after by (simp add: t timer_armed_def)
  have B: "\<forall>j. reports Stopped ten_frames j ?s = 0"
    using never by (intro allI reports_never)
  have C: "fst played_to_9 = ten_frames \<and> \<not> loop ten_frames \<and>
     stopAtRef ?s = None \<and> currentFrame ?s = 9 \<and> playbackState ?s = Playing \<and>
     timer_armed ten_frames ?s"
    by (simp add: played_to_9_state ten_frames_props timer_armed_ten_frames)
  from A B C show ?thesis by blast
qed

section \<open>Looping\<close>

text \<open>
  C5. Five frames, looping. After \<open>play({stopAtFrame: 3})\<close>, three elapsed intervals,
  \<open>play()\<close> and \<open>goToFrame(0)\<close>, the engine plays at index 0 with no stop target, and the
  pause of the first run is still pending. The next elapsed interval commits it: the
  engine halts paused at index 1, and five elapsed intervals do not bring it back to
  index 0.
\<close>

theorem loop_run_halts_paused:
  "fst replayed_from_0 = five_frames \<and> loop five_frames \<and>
   stopAtRef (snd replayed_from_0) = None \<and>
   currentFrame (snd replayed_from_0) = 0 \<and>
   playbackState (snd replayed_from_0) = Playing \<and>
   timer_armed five_frames (snd replayed_from_0) \<and>
   currentFrame ((timer_tick five_frames ^^ 5) (snd replayed_from_0)) = 1 \<and>
   playbackState ((timer_tick five_frames ^^ 5) (snd replayed_from_0)) = Paused \<and>
   (\<forall>j. currentFrame ((timer_tick five_frames ^^ Suc j) (snd replayed_from_0)) = 1 \<and>
        playbackState ((timer_tick five_frames ^^ Suc j) (snd replayed_from_0)) = Paused)"
proof -
  let ?s = "snd replayed_from_0"
  have t: "timer_tick five_frames ?s =
      \<lparr>currentFrame = 1, isPlaying = False, playbackState = Paused, stopAtRef = None,
       pendingStopRef = None\<rparr>"
    by (simp add: replayed_from_0_state five_frames_props timer_armed_five_frames
        transitionTo_def timer_defs)
  have idle: "\<not> isPlaying (timer_tick five_frames ?s)" by (simp add: t)
  have after: "(timer_tick five_frames ^^ Suc j) ?s = timer_tick five_frames ?s" for j
    using idle by (rule timer_tick_halted)
  have five: "(5::nat) = Suc 4" by simp
  have A: "currentFrame ((timer_tick five_frames ^^ 5) ?s) = 1 \<and>
      playbackState ((timer_tick five_frames ^^ 5) ?s) = Paused"
    unfolding five after by (simp add: t)
  have B: "\<forall>j. currentFrame ((timer_tick five_frames ^^ Suc j) ?s) = 1 \<and>
        playbackState ((timer_tick five_frames ^^ Suc j) ?s) = Paused"
    unfolding after by (simp add: t)
  have C: "fst replayed_from_0 = five_frames \<and> loop five_frames \<and>
     stopAtRef ?s = None \<and> currentFrame ?s = 0 \<and> playbackState ?s = Playing \<and>
     timer_armed five_frames ?s"
    by (simp add: replayed_from_0_state five_frames_props timer_armed_five_frames)
  from A B C show ?thesis by blast
qed

section \<open>Restart\<close>

lemma restart_is_restart_spec: "restart p s = restart_spec p s"
  by (simp add: restart_def restart_spec_def play_def transitionTo_def)

lemma restart_clears_target:
  "frames_length p \<noteq> 0 \<Longrightarrow>
   stopAtRef (restart p s) = None \<and> currentFrame (restart p s) = 0 \<and>
   playbackState (restart p s) = Playing"
  by (simp add: restart_def play_def transitionTo_def)

text \<open>
  C9. Five frames, \<open>play({stopAtFrame: 1})\<close> and one elapsed interval: index 1, the pause
  pending. \<open>restart()\<close> is the reset of the index followed by \<open>play()\<close> without a target,
  as the specification words it, and it clears the stale target 1; but it leaves the
  pending pause, which the next elapsed interval commits: the new run halts paused at
  index 1, where the stale target was.
\<close>

theorem restart_run_halts_at_stale_target:
  "fst played_to_1 = five_frames \<and>
   stopAtRef (snd played_to_1) = Some 1 \<and>
   restart five_frames (snd played_to_1) = restart_spec five_frames (snd played_to_1) \<and>
   restart five_frames (snd played_to_1) =
     play five_frames None ((snd played_to_1)\<lparr>currentFrame := 0\<rparr>) \<and>
   stopAtRef (restart five_frames (snd played_to_1)) = None \<and>
   currentFrame (restart five_frames (snd played_to_1)) = 0 \<and>
   playbackState (restart five_frames (snd played_to_1)) = Playing \<and>
   currentFrame (timer_tick five_frames (restart five_frames (snd played_to_1))) = 1 \<and>
   playbackState (timer_tick five_frames (restart five_frames (snd played_to_1))) = Paused \<and>
   \<not> timer_armed five_frames (timer_tick five_frames (restart five_frames (snd played_to_1)))"
proof -
  let ?s = "snd played_to_1"
  have r: "restart five_frames ?s =
      \<lparr>currentFrame = 0, isPlaying = True, playbackState = Playing, stopAtRef = None,
       pendingStopRef = Some Paused\<rparr>"
    by (simp add: played_to_1_state five_frames_props restart_def play_def transitionTo_def)
  have t: "timer_tick five_frames (restart five_frames ?s) =
      \<lparr>currentFrame = 1, isPlaying = False, playbackState = Paused, stopAtRef = None,
       pendingStopRef = None\<rparr>"
    unfolding r
    by (simp add: five_frames_props timer_armed_five_frames transitionTo_def timer_defs)
  have A: "restart five_frames ?s = restart_spec five_frames ?s"
    by (rule restart_is_restart_spec)
  have B: "restart five_frames ?s = play five_frames None (?s\<lparr>currentFrame := 0\<rparr>)"
    by (simp add: restart_def)
  have C: "fst played_to_1 = five_frames \<and> stopAtRef ?s = Some 1"
    by (simp add: played_to_1_state)
  have D: "stopAtRef (restart five_frames ?s) = None \<and>
     currentFrame (restart five_frames ?s) = 0 \<and>
     playbackState (restart five_frames ?s) = Playing"
    unfolding r by simp
  have E: "currentFrame (timer_tick five_frames (restart five_frames ?s)) = 1 \<and>
     playbackState (timer_tick five_frames (restart five_frames ?s)) = Paused \<and>
     \<not> timer_armed five_frames (timer_tick five_frames (restart five_frames ?s))"
    unfolding t by (simp add: timer_armed_def)
  from A B C D E show ?thesis by blast
qed

section \<open>A stop target at or behind the frame index\<close>

text \<open>
  C10, as amended. Let the timer interval be finite, the frame index in range and no stop
  pending. If \<open>play({stopAtFrame: T})\<close> is called while the frame index is at or past
  \<open>T\<close>, the next elapsed interval sets the frame index to \<open>max T 0\<close>: to \<open>T\<close> itself for
  every \<open>T \<ge> 0\<close>, moving the index backward when it was past \<open>T\<close>, and to 0 for a negative
  \<open>T\<close>, which \<open>play\<close> stores clamped. The index does not advance, wrap or run on to the
  end.
\<close>

theorem stop_target_behind_index:
  assumes fin: "Number_isFinite (frameInterval p)"
    and pending: "pendingStopRef s = None"
    and behind: "T \<le> currentFrame s"
    and range: "0 \<le> currentFrame s" "currentFrame s \<le> int (frames_length p) - 1"
  shows "currentFrame (timer_tick p (play p (Some T) s)) = max T 0"
proof -
  have ne: "frames_length p \<noteq> 0" using fin by (rule finite_interval_nonempty)
  have cfT: "clampFrame p T = max T 0"
    using ne behind range by (auto simp: clampFrame_def clamp_def safeLastIndex_def)
  have s: "play p (Some T) s =
      s\<lparr>isPlaying := True, playbackState := Playing, stopAtRef := Some (max T 0)\<rparr>"
    by (simp add: play_fields [OF ne] cfT)
  have cl: "clamp (max T 0) 0 (int (frames_length p) - 1) = max T 0"
    using behind range by (auto simp: clamp_def)
  have reach: "max T 0 \<le> currentFrame s + 1" using behind range by simp
  show ?thesis
    unfolding s using fin ne pending reach
    by (simp add: timer_tick_def timer_armed_def tick_def commit_pending_def advance_def Let_def cl)
qed

text \<open>Five frames at index 4, \<open>play({stopAtFrame: 2})\<close>: the next interval moves back to 2.\<close>

theorem stop_target_behind_index_witness:
  "currentFrame (goToFrame five_frames 4 False (initial five_frames)) = 4 \<and>
   pendingStopRef (goToFrame five_frames 4 False (initial five_frames)) = None \<and>
   currentFrame (timer_tick five_frames
      (play five_frames (Some 2) (goToFrame five_frames 4 False (initial five_frames)))) = 2"
  using stop_target_behind_index
    [of five_frames "goToFrame five_frames 4 False (initial five_frames)" 2]
  by (simp add: goToFrame_def example_defs)

text \<open>
  The claim as first stated, with the index set to \<open>T\<close> for every \<open>T\<close>, fails for a
  negative target: at index 2 of five frames, \<open>play({stopAtFrame: -1})\<close> and one interval
  leave the index at 0; the engine still plays after that interval.
\<close>

theorem negative_stop_target_counterexample:
  "- 1 \<le> currentFrame (goToFrame five_frames 2 False (initial five_frames)) \<and>
   currentFrame (timer_tick five_frames
      (play five_frames (Some (- 1)) (goToFrame five_frames 2 False (initial five_frames)))) = 0 \<and>
   currentFrame (timer_tick five_frames
      (play five_frames (Some (- 1)) (goToFrame five_frames 2 False (initial five_frames)))) \<noteq> - 1 \<and>
   playbackState (timer_tick five_frames
      (play five_frames (Some (- 1)) (goToFrame five_frames 2 False (initial five_frames)))) = Playing"
  by (simp add: goToFrame_def example_defs play_def transitionTo_def timer_tick_def timer_armed_def
      tick_def commit_pending_def advance_def Let_def)

section \<open>The life of the stop target\<close>

text \<open>
  C8, as amended. \<open>play\<close> on a non-empty list sets the stop target to the clamped
  \<open>stopAtFrame\<close> when one is supplied and clears it otherwise (\<open>restart\<close> and the \<open>play()\<close>
  of the autoplay effect are of the second kind); \<open>stop\<close> clears it, as does a frame list
  that becomes empty; \<open>pause\<close> and \<open>goToFrame\<close> leave it unchanged. An elapsed interval
  never sets a target: it leaves the target as it is or clears it, and it leaves it as it
  is whenever no stop is pending and the interval neither reaches the target nor runs past
  the last index with \<open>loop\<close> false, so in particular when it wraps to index 0.
\<close>

theorem stop_target_changes:
  "(case e of
      Play t \<Rightarrow>
        stopAtRef (snd (step e (p, s))) =
          (if frames_length p = 0 then stopAtRef s
           else (case t of Some i \<Rightarrow> Some (clampFrame p i) | None \<Rightarrow> None))
    | Pause \<Rightarrow> stopAtRef (snd (step e (p, s))) = stopAtRef s
    | Stop \<Rightarrow> stopAtRef (snd (step e (p, s))) = None
    | Restart \<Rightarrow>
        stopAtRef (snd (step e (p, s))) = (if frames_length p = 0 then stopAtRef s else None)
    | GoToFrame i a \<Rightarrow> stopAtRef (snd (step e (p, s))) = stopAtRef s
    | Tick \<Rightarrow>
        (stopAtRef (snd (step e (p, s))) = None \<or>
         stopAtRef (snd (step e (p, s))) = stopAtRef s) \<and>
        (pendingStopRef s = None \<and>
         (case stopAtRef s of Some t \<Rightarrow> currentFrame s + 1 < t | None \<Rightarrow> True) \<and>
         (loop p \<or> currentFrame s + 1 \<le> int (frames_length p) - 1)
         \<longrightarrow> stopAtRef (snd (step e (p, s))) = stopAtRef s)
    | SetFrames n \<Rightarrow>
        stopAtRef (snd (step e (p, s))) =
          (if n = frames_length p then stopAtRef s
           else if n = 0 \<or> autoPlay p then None else stopAtRef s))"
proof (cases e)
  case (Play t)
  then show ?thesis by (simp add: play_def transitionTo_def)
next
  case Pause
  then show ?thesis by (simp add: pause_def pauseInternal_def transitionTo_def)
next
  case Stop
  then show ?thesis by (simp add: stop_def stopInternal_def transitionTo_def)
next
  case Restart
  then show ?thesis by (simp add: restart_def play_def transitionTo_def)
next
  case (GoToFrame i a)
  then show ?thesis by (simp add: goToFrame_def Let_def pauseInternal_def transitionTo_def)
next
  case Tick
  have adv: "stopAtRef (advance p s') = stopAtRef s'" for s'
    by (simp add: advance_def advance_free_def Let_def split: option.splits)
  have "stopAtRef (timer_tick p s) =
      (if timer_armed p s \<and> pendingStopRef s \<noteq> None then None else stopAtRef s)"
    by (auto simp: timer_tick_def tick_def adv commit_pending_def transitionTo_def
        split: option.splits)
  then show ?thesis using Tick by simp
next
  case (SetFrames n)
  then show ?thesis
    by (simp add: set_frames_def Let_def autoPlay_effect_def frames_effect_def play_def
        stopInternal_def transitionTo_def)
qed

text \<open>
  After \<open>play({stopAtFrame: 4})\<close> at index 0 of five frames, an elapsed interval, \<open>pause\<close>
  and \<open>goToFrame\<close> keep the target, \<open>stop\<close> and \<open>play()\<close> clear it.
\<close>

theorem stop_target_changes_witness:
  "stopAtRef (play five_frames (Some 4) (mount five_frames)) = Some 4 \<and>
   stopAtRef (snd (step Tick (five_frames, play five_frames (Some 4) (mount five_frames))))
     = Some 4 \<and>
   stopAtRef (snd (step Pause (five_frames, play five_frames (Some 4) (mount five_frames))))
     = Some 4 \<and>
   stopAtRef (snd (step Stop (five_frames, play five_frames (Some 4) (mount five_frames))))
     = None \<and>
   stopAtRef (snd (step (Play None) (five_frames, play five_frames (Some 4) (mount five_frames))))
     = None"
proof -
  let ?s = "play five_frames (Some 4) (mount five_frames)"
  have m: "?s =
      \<lparr>currentFrame = 0, isPlaying = True, playbackState = Playing, stopAtRef = Some 4,
       pendingStopRef = None\<rparr>"
    by (simp add: mount_five_frames five_frames_props command_defs)
  show ?thesis
    using stop_target_changes [of Tick five_frames ?s]
      stop_target_changes [of Pause five_frames ?s]
      stop_target_changes [of Stop five_frames ?s]
      stop_target_changes [of "Play None" five_frames ?s]
    unfolding m by (simp add: five_frames_props)
qed

text \<open>
  The claim as first stated, with the target cleared by a loop wrap, fails: after
  \<open>play({stopAtFrame: 4})\<close> on five frames, without autoplay, and a new list of two frames,
  the second elapsed interval wraps from index 1 to index 0 and the target 4 is still
  set.
\<close>

theorem loop_wrap_keeps_target_counterexample:
  "loop five_frames \<and>
   currentFrame (snd (run [Play (Some 4), SetFrames 2, Tick] (five_frames, mount five_frames))) = 1 \<and>
   frames_length (fst (run [Play (Some 4), SetFrames 2, Tick] (five_frames, mount five_frames))) = 2 \<and>
   stopAtRef (snd (run [Play (Some 4), SetFrames 2, Tick] (five_frames, mount five_frames))) = Some 4 \<and>
   currentFrame (snd (run [Play (Some 4), SetFrames 2, Tick, Tick] (five_frames, mount five_frames))) = 0 \<and>
   playbackState (snd (run [Play (Some 4), SetFrames 2, Tick, Tick] (five_frames, mount five_frames))) = Playing \<and>
   stopAtRef (snd (run [Play (Some 4), SetFrames 2, Tick, Tick] (five_frames, mount five_frames))) = Some 4"
  by (simp add: five_frames_def mount_def autoPlay_effect_def frames_effect_def initial_def
      play_def transitionTo_def clampFrame_def clamp_def safeLastIndex_def set_frames_def Let_def
      timer_tick_def timer_armed_def frameInterval_def DEFAULT_FPS_def js_number_small tick_def
      commit_pending_def advance_def advance_free_def)

section \<open>The empty frame list\<close>

text \<open>
  C4, as amended. On an empty frame list (where the frame index is 0), \<open>play\<close>,
  \<open>restart\<close>, \<open>goToFrame\<close> without \<open>autoPause\<close> and an elapsed interval leave the state
  as it is. \<open>pause()\<close>, which has no guard on the length of the list, still clears
  \<open>isPlaying\<close> and sets the playback state to \<open>paused\<close>, as does \<open>goToFrame\<close> with
  \<open>autoPause\<close>; \<open>stop()\<close> still resets.
\<close>

theorem empty_list_commands:
  assumes "frames_length p = 0" and "currentFrame s = 0"
  shows "play p t s = s \<and> restart p s = s \<and> goToFrame p i False s = s \<and>
     timer_tick p s = s \<and>
     pause s = s\<lparr>isPlaying := False, playbackState := Paused\<rparr> \<and>
     goToFrame p i True s = pause s \<and>
     stop s = s\<lparr>isPlaying := False, playbackState := Stopped, stopAtRef := None\<rparr>"
  using assms
  by (simp add: play_def restart_def goToFrame_def clampFrame_def timer_tick_def timer_armed_def
      frameInterval_def pause_def pauseInternal_def stop_def stopInternal_def transitionTo_def)

text \<open>
  A component mounted without frames: \<open>play\<close>, \<open>restart\<close> and \<open>goToFrame\<close> change nothing,
  \<open>pause\<close> sets \<open>paused\<close>.
\<close>

theorem empty_list_commands_witness:
  "frames_length no_frames = 0 \<and> currentFrame (mount no_frames) = 0 \<and>
   play no_frames (Some 3) (mount no_frames) = mount no_frames \<and>
   restart no_frames (mount no_frames) = mount no_frames \<and>
   goToFrame no_frames 7 False (mount no_frames) = mount no_frames \<and>
   playbackState (pause (mount no_frames)) = Paused"
proof -
  have h: "frames_length no_frames = 0" "currentFrame (mount no_frames) = 0"
    by (simp_all add: mount_def autoPlay_effect_def frames_effect_def stopInternal_def
        transitionTo_def example_defs)
  show ?thesis
    using empty_list_commands [OF h, of "Some 3" 7] h by simp
qed

text \<open>
  The claim as first stated, with \<open>pause\<close> a no-op on an empty list, fails: a component
  mounted without frames is \<open>stopped\<close>, and \<open>pause()\<close> makes it \<open>paused\<close>.
\<close>

theorem pause_on_empty_list_counterexample:
  "frames_length no_frames = 0 \<and>
   playbackState (mount no_frames) = Stopped \<and>
   playbackState (pause (mount no_frames)) = Paused \<and>
   pause (mount no_frames) \<noteq> mount no_frames"
  by (simp add: no_frames_def mount_def autoPlay_effect_def frames_effect_def initial_def
      stopInternal_def transitionTo_def pause_def pauseInternal_def clampFrame_def)

section \<open>The timer interval\<close>

text \<open>
  C7, as amended. On a non-empty frame list without a duration, every frame rate that is
  not greater than zero (zero, a negative number, minus infinity or \<open>NaN\<close>) gives the
  interval of the default rate, \<open>1000 / 24\<close> ms, which is finite and positive.
\<close>

theorem frameInterval_fallback:
  assumes "frames_length p \<noteq> 0" and "duration p = None"
    and "fps p = NaN \<or> fps p = NegInf \<or> (\<exists>x \<le> 0. fps p = Fin x)"
  shows "frameInterval p = Fin (1000 / 24) \<and> Number_isFinite (frameInterval p) \<and>
     js_gt (frameInterval p) (Fin 0)"
  using assms by (auto simp: frameInterval_def DEFAULT_FPS_def js_number_small)

text \<open>
  The frame rates 0, -30, \<open>NaN\<close> and minus infinity on five frames.
\<close>

theorem frameInterval_fallback_witness:
  "frameInterval (five_frames\<lparr>fps := Fin 0\<rparr>) = Fin (1000 / 24) \<and>
   frameInterval (five_frames\<lparr>fps := Fin (- 30)\<rparr>) = Fin (1000 / 24) \<and>
   frameInterval (five_frames\<lparr>fps := NaN\<rparr>) = Fin (1000 / 24) \<and>
   frameInterval (five_frames\<lparr>fps := NegInf\<rparr>) = Fin (1000 / 24)"
  using frameInterval_fallback [of "five_frames\<lparr>fps := Fin 0\<rparr>"]
    frameInterval_fallback [of "five_frames\<lparr>fps := Fin (- 30)\<rparr>"]
    frameInterval_fallback [of "five_frames\<lparr>fps := NaN\<rparr>"]
    frameInterval_fallback [of "five_frames\<lparr>fps := NegInf\<rparr>"]
  by (simp add: five_frames_def)

text \<open>
  The claim as first stated, for every frame rate that is not finite, fails at plus
  infinity: it passes the test \<open>fps > 0\<close>, and the interval is \<open>1000 / Infinity = 0\<close>.
\<close>

theorem frameInterval_infinite_fps_counterexample:
  "\<not> Number_isFinite PosInf \<and>
   frames_length (five_frames\<lparr>fps := PosInf\<rparr>) = 5 \<and>
   duration (five_frames\<lparr>fps := PosInf\<rparr>) = None \<and>
   frameInterval (five_frames\<lparr>fps := PosInf\<rparr>) = Fin 0 \<and>
   frameInterval (five_frames\<lparr>fps := PosInf\<rparr>) \<noteq> Fin (1000 / 24)"
  by (simp add: five_frames_def frameInterval_def)

section \<open>Stop\<close>

text \<open>
  C6. From every prior state (any playback state, any frame index, any stop target),
  \<open>stop()\<close> leaves the frame index at 0, the playback state \<open>stopped\<close> and no stop target;
  it also leaves the timer disarmed.
\<close>

theorem stop_resets:
  "currentFrame (stop s) = 0 \<and> playbackState (stop s) = Stopped \<and>
   stopAtRef (stop s) = None \<and> isPlaying (stop s) = False"
  by (simp add: stop_def stopInternal_def transitionTo_def)

end
